theory Spec2Isabelle
  imports Main "HOL-Library.Stream" "HOL-Library.Multiset"
    "HOL-Library.Char_ord" "HOL-Library.List_Lexorder"
begin

section \<open>Python values, exceptions and the clock\<close>

text \<open>
  Python strings are modelled as \<open>string\<close> (lists of 8-bit characters), so the model
  speaks about ASCII text: \<open>len\<close> is \<open>length\<close>, slicing is \<open>take\<close>, and
  \<open>str.upper\<close> maps the letters \<open>a\<close>..\<open>z\<close> to \<open>A\<close>..\<open>Z\<close> and leaves every
  other character alone.
\<close>

definition upper_char :: "char \<Rightarrow> char" where
  "upper_char c =
     (let n = (of_char c :: nat) in if 97 \<le> n \<and> n \<le> 122 then char_of (n - 32) else c)"

definition upper :: "string \<Rightarrow> string" where
  "upper s = map upper_char s"

text \<open>\<open>s.split(sep)\<close> for a one-character separator: the pieces between the separators.\<close>

fun split :: "char \<Rightarrow> string \<Rightarrow> string list" where
  "split sep [] = [[]]"
| "split sep (c # cs) =
     (if c = sep then [] # split sep cs
      else (case split sep cs of
              [] \<Rightarrow> [[c]]
            | piece # pieces \<Rightarrow> (c # piece) # pieces))"

text \<open>Decimal rendering of numbers, as \<open>str(n)\<close> and as the zero-padded fields of a date.\<close>

definition digit :: "nat \<Rightarrow> char" where
  "digit n = char_of (48 + n mod 10)"

fun zpad :: "nat \<Rightarrow> nat \<Rightarrow> string" where
  "zpad 0 n = []"
| "zpad (Suc w) n = zpad w (n div 10) @ [digit n]"

function show_nat :: "nat \<Rightarrow> string" where
  "show_nat n = (if n < 10 then [digit n] else show_nat (n div 10) @ [digit n])"
  by pat_completeness auto
termination
  by (relation "measure id") auto

definition show_int :: "int \<Rightarrow> string" where
  "show_int i = (if i < 0 then CHR ''-'' # show_nat (nat (- i)) else show_nat (nat i))"

text \<open>
  The exceptions the code raises or receives. \<open>CosmosHttpResponseError\<close> carries its
  \<open>status_code\<close>, its \<open>message\<close> and the text \<open>str(e)\<close> renders (the SDK's business);
  \<open>OtherException\<close> is any other exception a collaborator raises, with its \<open>str(e)\<close>.
\<close>

datatype exn =
    KeyError string
  | IndexError
  | ValueError string
  | CosmosHttpResponseError "int option" string string
  | HTTPException int string
  | OtherException string

fun str_exn :: "exn \<Rightarrow> string" where
  "str_exn (KeyError k) = CHR 0x27 # k @ [CHR 0x27]"
| "str_exn IndexError = ''list index out of range''"
| "str_exn (ValueError m) = m"
| "str_exn (CosmosHttpResponseError sc m t) = t"
| "str_exn (HTTPException sc d) = show_int sc @ '': '' @ d"
| "str_exn (OtherException t) = t"

definition bind_exn :: "exn + 'a \<Rightarrow> ('a \<Rightarrow> exn + 'b) \<Rightarrow> exn + 'b" where
  "bind_exn r f = (case r of Inl e \<Rightarrow> Inl e | Inr v \<Rightarrow> f v)"

text \<open>A dictionary with string keys; \<open>data[key]\<close> raises \<open>KeyError\<close> on a missing key.\<close>

type_synonym doc = "string \<rightharpoonup> string"

definition getitem :: "(string \<rightharpoonup> 'v) \<Rightarrow> string \<Rightarrow> exn + 'v" where
  "getitem data k = (case data k of None \<Rightarrow> Inl (KeyError k) | Some v \<Rightarrow> Inr v)"

definition get_default :: "(string \<rightharpoonup> 'v) \<Rightarrow> string \<Rightarrow> 'v \<Rightarrow> 'v" where
  "get_default data k d = (case data k of None \<Rightarrow> d | Some v \<Rightarrow> v)"

text \<open>
  \<open>datetime.utcnow()\<close> reads the clock: the clock is the stream of the readings still to
  come, and every call consumes one.
\<close>

record datetime =
  dt_year :: nat
  dt_month :: nat
  dt_day :: nat
  dt_hour :: nat
  dt_minute :: nat
  dt_second :: nat
  dt_microsecond :: nat

type_synonym clock = "datetime stream"

definition utcnow :: "clock \<Rightarrow> datetime \<times> clock" where
  "utcnow clk = (shd clk, stl clk)"

definition isoformat :: "datetime \<Rightarrow> string" where
  "isoformat d =
     zpad 4 (dt_year d) @ ''-'' @ zpad 2 (dt_month d) @ ''-'' @ zpad 2 (dt_day d) @ ''T'' @
     zpad 2 (dt_hour d) @ '':'' @ zpad 2 (dt_minute d) @ '':'' @ zpad 2 (dt_second d) @
     (if dt_microsecond d = 0 then [] else ''.'' @ zpad 6 (dt_microsecond d))"

text \<open>\<open>strftime("%Y%m%d%H%M%S")\<close>, for the four-digit years of a running clock.\<close>

definition strftime_YmdHMS :: "datetime \<Rightarrow> string" where
  "strftime_YmdHMS d =
     zpad 4 (dt_year d) @ zpad 2 (dt_month d) @ zpad 2 (dt_day d) @
     zpad 2 (dt_hour d) @ zpad 2 (dt_minute d) @ zpad 2 (dt_second d)"


section \<open>The audit record model: models/cosmos_models.py\<close>

text \<open>
  The request and response schemas. Their fields carry the prefixes \<open>req_\<close> and
  \<open>resp_\<close>, since the three classes share their field names.
\<close>

record AuditRecordRequest =
  req_claim_id :: string
  req_customer_name :: string
  req_process_name :: string
  req_process_status :: string
  req_process_details :: string
  req_agent_name :: string

record AuditRecordResponse =
  resp_audit_id :: string
  resp_claim_id :: string
  resp_customer_id :: string
  resp_customer_name :: string
  resp_process_name :: string
  resp_process_status :: string
  resp_process_details :: string
  resp_agent_name :: string
  resp_timestamp :: string
  resp_created_at :: string
  resp_updated_at :: string

text \<open>The attributes of a \<open>CosmosAuditRecord\<close>; the attribute \<open>id\<close> is the field \<open>id'\<close>.\<close>

record CosmosAuditRecord =
  claim_id :: string
  customer_id :: string
  customer_name :: string
  process_name :: string
  process_status :: string
  process_details :: string
  agent_name :: string
  audit_id :: string
  timestamp :: string
  created_at :: string
  updated_at :: string
  id' :: string

definition generate_audit_id :: "clock \<Rightarrow> string \<times> clock" where
  "generate_audit_id clk =
     (let (now, clk') = utcnow clk; timestamp_part = strftime_YmdHMS now
      in (''AUD'' @ timestamp_part, clk'))"

text \<open>
  \<open>__init__\<close>. The optional argument \<open>audit_id\<close> is \<open>None\<close> or a string;
  \<open>audit_id or self._generate_audit_id()\<close> takes the generated identifier for \<open>None\<close>
  and for the empty string, and reads the clock only then.
\<close>

definition CosmosAuditRecord_init ::
  "string \<Rightarrow> string \<Rightarrow> string \<Rightarrow> string \<Rightarrow> string \<Rightarrow> string \<Rightarrow> string \<Rightarrow> string option \<Rightarrow>
   clock \<Rightarrow> CosmosAuditRecord \<times> clock" where
  "CosmosAuditRecord_init claim cust cname pname pstatus pdetails agent aid clk =
     (let (audit, clk1) =
            (case aid of
               None \<Rightarrow> generate_audit_id clk
             | Some a \<Rightarrow> if a \<noteq> [] then (a, clk) else generate_audit_id clk);
          (now, clk2) = utcnow clk1;
          current_time = isoformat now @ ''Z''
      in (\<lparr> claim_id = claim, customer_id = cust, customer_name = cname,
            process_name = pname, process_status = pstatus, process_details = pdetails,
            agent_name = agent, audit_id = audit,
            timestamp = current_time, created_at = current_time, updated_at = current_time,
            id' = cust @ ''_'' @ audit \<rparr>, clk2))"

definition to_dict :: "CosmosAuditRecord \<Rightarrow> doc" where
  "to_dict r =
     [''id'' \<mapsto> id' r,
      ''audit_id'' \<mapsto> audit_id r,
      ''claim_id'' \<mapsto> claim_id r,
      ''customerId'' \<mapsto> customer_id r,
      ''customer_name'' \<mapsto> customer_name r,
      ''process_name'' \<mapsto> process_name r,
      ''process_status'' \<mapsto> process_status r,
      ''process_details'' \<mapsto> process_details r,
      ''agent_name'' \<mapsto> agent_name r,
      ''timestamp'' \<mapsto> timestamp r,
      ''created_at'' \<mapsto> created_at r,
      ''updated_at'' \<mapsto> updated_at r,
      ''type'' \<mapsto> ''audit_record'']"

text \<open>
  The eight subscripts \<open>data[...]\<close> of \<open>from_dict\<close>, evaluated in the order of the
  keyword arguments; the first missing key raises before the constructor runs.
\<close>

definition from_dict_args ::
  "doc \<Rightarrow> exn + (string \<times> string \<times> string \<times> string \<times> string \<times> string \<times> string \<times> string)" where
  "from_dict_args data =
     bind_exn (getitem data ''claim_id'') (\<lambda>claim.
     bind_exn (getitem data ''customerId'') (\<lambda>cust.
     bind_exn (getitem data ''customer_name'') (\<lambda>cname.
     bind_exn (getitem data ''process_name'') (\<lambda>pname.
     bind_exn (getitem data ''process_status'') (\<lambda>pstatus.
     bind_exn (getitem data ''process_details'') (\<lambda>pdetails.
     bind_exn (getitem data ''agent_name'') (\<lambda>agent.
     bind_exn (getitem data ''audit_id'') (\<lambda>aid.
       Inr (claim, cust, cname, pname, pstatus, pdetails, agent, aid)))))))))"

definition from_dict :: "doc \<Rightarrow> clock \<Rightarrow> (exn + CosmosAuditRecord) \<times> clock" where
  "from_dict data clk =
     (case from_dict_args data of
        Inl e \<Rightarrow> (Inl e, clk)
      | Inr (claim, cust, cname, pname, pstatus, pdetails, agent, aid) \<Rightarrow>
          (let (record0, clk') =
                 CosmosAuditRecord_init claim cust cname pname pstatus pdetails agent (Some aid) clk;
               record1 = record0\<lparr>timestamp := get_default data ''timestamp'' (timestamp record0)\<rparr>;
               record2 = record1\<lparr>created_at := get_default data ''created_at'' (created_at record1)\<rparr>;
               record3 = record2\<lparr>updated_at := get_default data ''updated_at'' (updated_at record2)\<rparr>;
               record4 = record3\<lparr>id' := get_default data ''id'' (id' record3)\<rparr>
           in (Inr record4, clk')))"

definition to_response_model :: "CosmosAuditRecord \<Rightarrow> AuditRecordResponse" where
  "to_response_model r =
     \<lparr> resp_audit_id = audit_id r, resp_claim_id = claim_id r,
       resp_customer_id = customer_id r, resp_customer_name = customer_name r,
       resp_process_name = process_name r, resp_process_status = process_status r,
       resp_process_details = process_details r, resp_agent_name = agent_name r,
       resp_timestamp = timestamp r, resp_created_at = created_at r,
       resp_updated_at = updated_at r \<rparr>"

text \<open>The \<open>.dict()\<close> of a response model.\<close>

definition dict_of :: "AuditRecordResponse \<Rightarrow> doc" where
  "dict_of m =
     [''audit_id'' \<mapsto> resp_audit_id m,
      ''claim_id'' \<mapsto> resp_claim_id m,
      ''customer_id'' \<mapsto> resp_customer_id m,
      ''customer_name'' \<mapsto> resp_customer_name m,
      ''process_name'' \<mapsto> resp_process_name m,
      ''process_status'' \<mapsto> resp_process_status m,
      ''process_details'' \<mapsto> resp_process_details m,
      ''agent_name'' \<mapsto> resp_agent_name m,
      ''timestamp'' \<mapsto> resp_timestamp m,
      ''created_at'' \<mapsto> resp_created_at m,
      ''updated_at'' \<mapsto> resp_updated_at m]"

text \<open>
  The values the class produces: what \<open>__init__\<close> returns and what \<open>from_dict\<close> returns.
  Nothing in the repository assigns to an attribute elsewhere.
\<close>

inductive AuditEvent :: "CosmosAuditRecord \<Rightarrow> bool" where
  by_init:
    "AuditEvent (fst (CosmosAuditRecord_init claim cust cname pname pstatus pdetails agent aid clk))"
| by_from_dict:
    "fst (from_dict data clk) = Inr r \<Longrightarrow> AuditEvent r"


section \<open>The API service: main.py\<close>

definition extract_customer_id_from_claim :: "string \<Rightarrow> exn + string" where
  "extract_customer_id_from_claim claim =
     (if CHR ''_'' \<in> set claim then
        (case split CHR ''_'' claim of
           [] \<Rightarrow> Inl IndexError
         | piece # pieces \<Rightarrow> Inr piece)
      else if length claim \<ge> 6 then Inr (upper (take 6 claim))
      else Inr (''CUST_'' @ claim))"

text \<open>
  The storage collaborator is the SDK's container, outside the repository: it is a
  parameter, the outcome of each of its two calls. \<open>create_item\<close> takes the body and
  \<open>enable_automatic_id_generation\<close>; \<open>query_items\<close> takes the query, its parameters
  (name and value), the partition key and \<open>enable_cross_partition_query\<close>, and
  \<open>list(...)\<close> of its result is a list of documents or an exception.
\<close>

record query_request =
  query :: string
  parameters :: "(string \<times> string) list"
  partition_key :: string
  enable_cross_partition_query :: bool

record container =
  create_item :: "doc \<Rightarrow> bool \<Rightarrow> exn + doc"
  query_items :: "query_request \<Rightarrow> exn + doc list"

text \<open>
  \<open>create_audit_record\<close>: the body of the \<open>try\<close>, the \<open>except\<close> clauses in their order,
  and the handler as a whole. The response \<open>{"message": m, "record": d}\<close> is the pair
  \<open>(m, d)\<close>. Logging has no part in the result and is left out.
\<close>

definition create_audit_record_try ::
  "AuditRecordRequest \<Rightarrow> container \<Rightarrow> clock \<Rightarrow> (exn + string \<times> doc) \<times> clock" where
  "create_audit_record_try record' cont clk =
     (case extract_customer_id_from_claim (req_claim_id record') of
        Inl e \<Rightarrow> (Inl e, clk)
      | Inr customer \<Rightarrow>
          (let (cosmos_record, clk') =
                 CosmosAuditRecord_init (req_claim_id record') customer
                   (req_customer_name record') (req_process_name record')
                   (req_process_status record') (req_process_details record')
                   (req_agent_name record') None clk
           in (case create_item cont (to_dict cosmos_record) False of
                 Inl e \<Rightarrow> (Inl e, clk')
               | Inr created_item \<Rightarrow>
                   (Inr (''Audit record created successfully'',
                         dict_of (to_response_model cosmos_record)), clk'))))"

definition create_audit_record_except :: "exn \<Rightarrow> exn" where
  "create_audit_record_except e =
     (case e of
        CosmosHttpResponseError status_code message text \<Rightarrow>
          (if status_code = Some 409 then HTTPException 409 ''Audit record already exists''
           else HTTPException 500 (''Database error: '' @ message))
      | _ \<Rightarrow> HTTPException 500 (''Failed to create audit record: '' @ str_exn e))"

definition create_audit_record ::
  "AuditRecordRequest \<Rightarrow> container \<Rightarrow> clock \<Rightarrow> (exn + string \<times> doc) \<times> clock" where
  "create_audit_record record' cont clk =
     (case create_audit_record_try record' cont clk of
        (Inl e, clk') \<Rightarrow> (Inl (create_audit_record_except e), clk')
      | (Inr response, clk') \<Rightarrow> (Inr response, clk'))"






section \<open>The connectivity probe and the health check\<close>

text \<open>
  The values of the two dictionaries are strings or \<open>None\<close>. The probe's client comes
  from \<open>get_cosmos_client()\<close>, which returns it or raises; \<open>client.database.read()\<close>
  returns the properties of the database or raises. Both outcomes are parameters.
\<close>

datatype pyval = PyStr string | PyNone

record cosmos_client =
  database_read :: "exn + (string \<rightharpoonup> pyval)"

definition check_cosmos_connection :: "exn + cosmos_client \<Rightarrow> (string \<rightharpoonup> pyval)" where
  "check_cosmos_connection get_cosmos_client =
     (case bind_exn get_cosmos_client (\<lambda>client.
           bind_exn (database_read client) (\<lambda>db_properties.
             Inr [''status'' \<mapsto> PyStr ''connected'',
                  ''database_name'' \<mapsto> get_default db_properties ''id'' PyNone])) of
        Inr status \<Rightarrow> status
      | Inl e \<Rightarrow> [''status'' \<mapsto> PyStr ''disconnected'', ''error'' \<mapsto> PyStr (str_exn e)])"

definition health_check_try ::
  "exn + cosmos_client \<Rightarrow> (string \<rightharpoonup> string) \<Rightarrow> clock \<Rightarrow> (exn + (string \<rightharpoonup> pyval)) \<times> clock" where
  "health_check_try get_cosmos_client environ clk =
     (let cosmos_status = check_cosmos_connection get_cosmos_client in
      case getitem cosmos_status ''status'' of
        Inl e \<Rightarrow> (Inl e, clk)
      | Inr status1 \<Rightarrow>
          (let (now, clk') = utcnow clk in
           case getitem cosmos_status ''status'' of
             Inl e \<Rightarrow> (Inl e, clk')
           | Inr status2 \<Rightarrow>
               (Inr [''status'' \<mapsto>
                       PyStr (if status1 = PyStr ''connected'' then ''healthy'' else ''unhealthy''),
                     ''timestamp'' \<mapsto> PyStr (isoformat now @ ''Z''),
                     ''database'' \<mapsto> status2,
                     ''database_name'' \<mapsto> get_default cosmos_status ''database_name'' PyNone,
                     ''environment'' \<mapsto> PyStr (get_default environ ''ENV'' ''production'')],
                clk')))"

definition health_check_except :: "exn \<Rightarrow> clock \<Rightarrow> (exn + (string \<rightharpoonup> pyval)) \<times> clock" where
  "health_check_except e clk =
     (let (now, clk') = utcnow clk in
      (Inr [''status'' \<mapsto> PyStr ''unhealthy'',
            ''timestamp'' \<mapsto> PyStr (isoformat now @ ''Z''),
            ''database'' \<mapsto> PyStr ''error'',
            ''error'' \<mapsto> PyStr (str_exn e)], clk'))"

definition health_check ::
  "exn + cosmos_client \<Rightarrow> (string \<rightharpoonup> string) \<Rightarrow> clock \<Rightarrow> (exn + (string \<rightharpoonup> pyval)) \<times> clock" where
  "health_check get_cosmos_client environ clk =
     (case health_check_try get_cosmos_client environ clk of
        (Inl e, clk') \<Rightarrow> health_check_except e clk'
      | (Inr response, clk') \<Rightarrow> (Inr response, clk'))"


section \<open>Notions of the specification\<close>

text \<open>
  The customer-id rule in the specification's words: the part before the first
  underscore; else the first six characters, upper-cased; else \<open>CUST_\<close> and the claim id.
\<close>

definition customer_id_rule :: "string \<Rightarrow> string" where
  "customer_id_rule claim =
     (if CHR ''_'' \<in> set claim then takeWhile (\<lambda>c. c \<noteq> CHR ''_'') claim
      else if length claim \<ge> 6 then upper (take 6 claim)
      else ''CUST_'' @ claim)"

text \<open>
  The fields of an AuditEvent as the data model of the specification names them, and the
  storage name the specification gives each field: two renames, every other name kept.
\<close>

definition spec_fields :: "CosmosAuditRecord \<Rightarrow> (string \<times> string) list" where
  "spec_fields r =
     [(''document_id'', id' r),
      (''audit_id'', audit_id r),
      (''claim_id'', claim_id r),
      (''customer_id'', customer_id r),
      (''customer_name'', customer_name r),
      (''process_name'', process_name r),
      (''process_status'', process_status r),
      (''process_details'', process_details r),
      (''agent_name'', agent_name r),
      (''timestamp'', timestamp r),
      (''created_at'', created_at r),
      (''updated_at'', updated_at r),
      (''record_type'', ''audit_record'')]"

definition spec_storage_name :: "string \<Rightarrow> string" where
  "spec_storage_name k =
     (if k = ''customer_id'' then ''customerId''
      else if k = ''document_id'' then ''id''
      else k)"

definition spec_to_dict :: "CosmosAuditRecord \<Rightarrow> doc" where
  "spec_to_dict r = map_of (map (\<lambda>(k, v). (spec_storage_name k, v)) (spec_fields r))"

text \<open>The storage names \<open>to_dict\<close> writes: the discriminator is stored as \<open>type\<close>.\<close>

definition storage_name :: "string \<Rightarrow> string" where
  "storage_name k =
     (if k = ''customer_id'' then ''customerId''
      else if k = ''document_id'' then ''id''
      else if k = ''record_type'' then ''type''
      else k)"

text \<open>
  A stored audit document carries the eight keys \<open>from_dict\<close> subscripts. A document
  matches the query for a customer when its \<open>customerId\<close> is the customer and its
  discriminator is \<open>audit_record\<close>.
\<close>

definition required_keys :: "string list" where
  "required_keys =
     [''claim_id'', ''customerId'', ''customer_name'', ''process_name'',
      ''process_status'', ''process_details'', ''agent_name'', ''audit_id'']"

definition storage_shaped :: "doc \<Rightarrow> bool" where
  "storage_shaped data = list_all (\<lambda>k. data k \<noteq> None) required_keys"


definition doc_timestamp :: "doc \<Rightarrow> string" where
  "doc_timestamp data = get_default data ''timestamp'' []"



section \<open>Example values\<close>

text \<open>
  A clock, stored documents and an in-memory container for the concrete instances of the
  theorems below. The container keeps its documents in insertion order, refuses a
  duplicate \<open>id\<close> with status 409, and answers the customer query from the partition
  key, the two parameters and the order by \<open>timestamp\<close>.
\<close>

definition example_clock :: clock where
  "example_clock =
     sconst \<lparr> dt_year = 2024, dt_month = 5, dt_day = 17, dt_hour = 9, dt_minute = 30,
              dt_second = 0, dt_microsecond = 0 \<rparr>"

definition example_record :: "string \<Rightarrow> string \<Rightarrow> string \<Rightarrow> CosmosAuditRecord" where
  "example_record customer audit stamp =
     \<lparr> claim_id = customer @ ''_001'', customer_id = customer, customer_name = ''Ann'',
       process_name = ''intake'', process_status = ''pending'', process_details = ''opened'',
       agent_name = ''agent7'', audit_id = audit,
       timestamp = stamp, created_at = stamp, updated_at = stamp,
       id' = customer @ ''_'' @ audit \<rparr>"

definition example_request :: AuditRecordRequest where
  "example_request =
     \<lparr> req_claim_id = ''CUST1_001'', req_customer_name = ''Ann'',
       req_process_name = ''intake'', req_process_status = ''pending'',
       req_process_details = ''opened'', req_agent_name = ''agent7'' \<rparr>"



definition example_container :: "doc list \<Rightarrow> container" where
  "example_container store =
     \<lparr> create_item = (\<lambda>body automatic.
         if list_ex (\<lambda>d. d ''id'' = body ''id'') store
         then Inl (CosmosHttpResponseError (Some 409) ''Conflict'' ''(Conflict) Conflict'')
         else Inr body),
       query_items = (\<lambda>request.
         Inr (sort_key doc_timestamp
                (filter (\<lambda>d. d ''customerId'' = Some (partition_key request) \<and>
                             d ''customerId'' = map_of (parameters request) ''@customer_id'' \<and>
                             d ''type'' = map_of (parameters request) ''@type'')
                   store))) \<rparr>"



section \<open>Properties\<close>


lemma split_hd: "\<exists>ps. split sep s = takeWhile (\<lambda>c. c \<noteq> sep) s # ps"
  by (induction s) (auto split: list.splits)

lemma extract_eq: "extract_customer_id_from_claim claim = Inr (customer_id_rule claim)"
  using split_hd [of "CHR ''_''" claim]
  by (auto simp: extract_customer_id_from_claim_def customer_id_rule_def)

lemma takeWhile_first:
  "x \<in> set xs \<Longrightarrow> \<exists>rest. xs = takeWhile (\<lambda>c. c \<noteq> x) xs @ x # rest"
  by (induction xs) auto

text \<open>
  Claim C1. For every claim id, the empty one included, \<open>extract_customer_id_from_claim\<close>
  returns a value and never raises. With an underscore in the claim id the value is the
  part before the first underscore; with none and at least six characters it is the first
  six characters, upper-cased; otherwise it is \<open>CUST_\<close> followed by the claim id.
\<close>

theorem extract_customer_id_from_claim_rule:
  "extract_customer_id_from_claim claim = Inr (customer_id_rule claim) \<and>
   (CHR ''_'' \<in> set claim \<longrightarrow>
      CHR ''_'' \<notin> set (customer_id_rule claim) \<and>
      (\<exists>rest. claim = customer_id_rule claim @ CHR ''_'' # rest)) \<and>
   (CHR ''_'' \<notin> set claim \<and> length claim \<ge> 6 \<longrightarrow>
      customer_id_rule claim = upper (take 6 claim)) \<and>
   (CHR ''_'' \<notin> set claim \<and> length claim < 6 \<longrightarrow>
      customer_id_rule claim = ''CUST_'' @ claim)"
proof -
  have "CHR ''_'' \<notin> set (takeWhile (\<lambda>c. c \<noteq> CHR ''_'') claim)"
    by (auto dest: set_takeWhileD)
  then show ?thesis
    using takeWhile_first [of "CHR ''_''" claim]
    by (auto simp: extract_eq customer_id_rule_def)
qed

lemma upper_char_simps: "upper_char (CHR ''c'') = CHR ''C''" "upper_char (CHR ''l'') = CHR ''L''"
   "upper_char (CHR ''4'') = CHR ''4''"
  by code_simp+

theorem extract_customer_id_from_claim_rule_witness:
  "extract_customer_id_from_claim ''ABC123_XYZ'' = Inr ''ABC123'' \<and>
   extract_customer_id_from_claim ''cl4567890'' = Inr ''CL4567'' \<and>
   extract_customer_id_from_claim ''A1'' = Inr ''CUST_A1'' \<and>
   extract_customer_id_from_claim [] = Inr ''CUST_''"
  using extract_customer_id_from_claim_rule [of "''ABC123_XYZ''"] extract_customer_id_from_claim_rule [of "''cl4567890''"] extract_customer_id_from_claim_rule [of "''A1''"] extract_customer_id_from_claim_rule [of "[]"]
  by (simp add: customer_id_rule_def upper_def upper_char_def char_of_def bit_0)

lemma roundtrip:
  "audit_id r \<noteq> [] \<Longrightarrow> from_dict (to_dict r) clk = (Inr r, stl clk)"
  by (cases r)
     (simp add: from_dict_def from_dict_args_def to_dict_def bind_exn_def getitem_def
        get_default_def CosmosAuditRecord_init_def utcnow_def Let_def)

lemma init_audit_id: 
  "audit_id (fst (CosmosAuditRecord_init claim cust cname pname pstatus pdetails agent aid clk)) \<noteq> []"
  by (simp add: CosmosAuditRecord_init_def generate_audit_id_def utcnow_def Let_def split: option.splits)

lemma from_dict_audit_id:
  "fst (from_dict data clk) = Inr r \<Longrightarrow> audit_id r \<noteq> []"
  by (auto simp: from_dict_def CosmosAuditRecord_init_def generate_audit_id_def utcnow_def Let_def
       split: sum.splits prod.splits if_splits)

lemma AuditEvent_audit_id: "AuditEvent r \<Longrightarrow> audit_id r \<noteq> []"
  by (induction rule: AuditEvent.induct) (simp_all add: init_audit_id from_dict_audit_id)

text \<open>
  Claim C2. For every AuditEvent, \<open>from_dict\<close> of its \<open>to_dict\<close> is the AuditEvent
  itself, equal in all twelve fields, whatever the clock reads at that moment.
\<close>

theorem from_dict_to_dict_roundtrip: "AuditEvent r \<Longrightarrow> fst (from_dict (to_dict r) clk) = Inr r"
  by (simp add: roundtrip AuditEvent_audit_id)


theorem from_dict_to_dict_roundtrip_witness:
  "fst (from_dict
          (to_dict (fst (CosmosAuditRecord_init ''CUST1_001'' ''CUST1'' ''Ann'' ''intake''
                           ''pending'' ''opened'' ''agent7'' None (sconst \<lparr>dt_year = 2024, dt_month = 5, dt_day = 17, dt_hour = 9, dt_minute = 30, dt_second = 0, dt_microsecond = 0\<rparr>))))
          (sconst \<lparr>dt_year = 2025, dt_month = 1, dt_day = 2, dt_hour = 3, dt_minute = 4, dt_second = 5, dt_microsecond = 6\<rparr>))
   = Inr (fst (CosmosAuditRecord_init ''CUST1_001'' ''CUST1'' ''Ann'' ''intake''
                           ''pending'' ''opened'' ''agent7'' None (sconst \<lparr>dt_year = 2024, dt_month = 5, dt_day = 17, dt_hour = 9, dt_minute = 30, dt_second = 0, dt_microsecond = 0\<rparr>)))"
  by (rule from_dict_to_dict_roundtrip [OF AuditEvent.by_init])

text \<open>
  With two renames only, the discriminator would be stored as \<open>record_type\<close>; the
  document \<open>to_dict\<close> writes has no such key and differs from that dictionary.
\<close>

theorem to_dict_storage_names_counterexample:
  "to_dict (example_record ''CUST1'' ''AUD1'' ''2024-05-17T08:00:00Z'') ''record_type'' = None \<and>
   spec_to_dict (example_record ''CUST1'' ''AUD1'' ''2024-05-17T08:00:00Z'') ''record_type''
     = Some ''audit_record'' \<and>
   to_dict (example_record ''CUST1'' ''AUD1'' ''2024-05-17T08:00:00Z'') ''type''
     = Some ''audit_record'' \<and>
   to_dict (example_record ''CUST1'' ''AUD1'' ''2024-05-17T08:00:00Z'')
     \<noteq> spec_to_dict (example_record ''CUST1'' ''AUD1'' ''2024-05-17T08:00:00Z'')"
proof -
  have code: "to_dict r ''record_type'' = None" "to_dict r ''type'' = Some ''audit_record''" for r
    by (simp_all add: to_dict_def)
  have spec: "spec_to_dict r ''record_type'' = Some ''audit_record''" for r
    by (simp add: spec_to_dict_def spec_fields_def spec_storage_name_def)
  have "to_dict r \<noteq> spec_to_dict r" for r
    using code(1) [of r] spec [of r] by (metis option.distinct(1))
  with code spec show ?thesis
    by simp
qed

text \<open>
  Claim C3, as the code has it. \<open>to_dict\<close> stores every field of the data model under
  its storage name; the storage names are pairwise distinct; exactly three differ from the
  field's name: \<open>customer_id\<close> is stored as \<open>customerId\<close>, \<open>document_id\<close> as \<open>id\<close>, and
  the discriminator \<open>record_type\<close>, the constant \<open>audit_record\<close>, as \<open>type\<close>.
\<close>

theorem to_dict_storage_names:
  "to_dict r = map_of (map (\<lambda>(k, v). (storage_name k, v)) (spec_fields r)) \<and>
   distinct (map (storage_name \<circ> fst) (spec_fields r)) \<and>
   (\<forall>k \<in> set (map fst (spec_fields r)).
      (storage_name k \<noteq> k) = (k \<in> {''customer_id'', ''document_id'', ''record_type''})) \<and>
   storage_name ''customer_id'' = ''customerId'' \<and>
   storage_name ''document_id'' = ''id'' \<and>
   storage_name ''record_type'' = ''type'' \<and>
   to_dict r ''type'' = Some ''audit_record''"
proof -
  have "to_dict r k = map_of (map (\<lambda>(k, v). (storage_name k, v)) (spec_fields r)) k" for k
    by (simp add: to_dict_def spec_fields_def storage_name_def)
  then have "to_dict r = map_of (map (\<lambda>(k, v). (storage_name k, v)) (spec_fields r))"
    by blast
  moreover have "distinct (map (storage_name \<circ> fst) (spec_fields r))"
    by (simp add: spec_fields_def storage_name_def)
  moreover have "\<forall>k \<in> set (map fst (spec_fields r)).
      (storage_name k \<noteq> k) = (k \<in> {''customer_id'', ''document_id'', ''record_type''})"
    by (simp add: spec_fields_def storage_name_def)
  moreover have "to_dict r ''type'' = Some ''audit_record''"
    by (simp add: to_dict_def)
  ultimately show ?thesis
    by (simp add: storage_name_def)
qed

text \<open>
  Claim C4. The \<open>id\<close> of every constructed record is its customer id, an underscore and
  its audit id; so two constructions that agree on the customer id and on the audit id
  agree on the \<open>id\<close>.
\<close>

theorem document_id_composition:
  fixes claim1 cust1 cname1 pname1 pstatus1 pdetails1 agent1 :: string
    and claim2 cust2 cname2 pname2 pstatus2 pdetails2 agent2 :: string
    and aid1 aid2 :: "string option" and clk1 clk2 :: clock
  defines "r1 \<equiv> fst (CosmosAuditRecord_init claim1 cust1 cname1 pname1 pstatus1 pdetails1 agent1 aid1 clk1)"
      and "r2 \<equiv> fst (CosmosAuditRecord_init claim2 cust2 cname2 pname2 pstatus2 pdetails2 agent2 aid2 clk2)"
  shows "id' r1 = customer_id r1 @ ''_'' @ audit_id r1 \<and>
         (customer_id r1 = customer_id r2 \<and> audit_id r1 = audit_id r2 \<longrightarrow> id' r1 = id' r2)"
proof -
  have "id' (fst (CosmosAuditRecord_init claim cust cname pname pstatus pdetails agent aid clk)) =
        customer_id (fst (CosmosAuditRecord_init claim cust cname pname pstatus pdetails agent aid clk)) @ ''_'' @
        audit_id (fst (CosmosAuditRecord_init claim cust cname pname pstatus pdetails agent aid clk))"
    for claim cust cname pname pstatus pdetails agent aid clk
    by (simp add: CosmosAuditRecord_init_def generate_audit_id_def utcnow_def Let_def
          split: option.splits)
  then show ?thesis
    unfolding r1_def r2_def by simp
qed


text \<open>
  Claim C9. Right after construction, \<open>timestamp\<close>, \<open>created_at\<close> and \<open>updated_at\<close> are
  equal: each is the ISO form of one clock reading followed by \<open>Z\<close>.
\<close>

theorem init_timestamps_equal:
  fixes claim cust cname pname pstatus pdetails agent :: string
    and aid :: "string option" and clk :: clock
  defines "r \<equiv> fst (CosmosAuditRecord_init claim cust cname pname pstatus pdetails agent aid clk)"
  shows "timestamp r = created_at r \<and> created_at r = updated_at r \<and>
         (\<exists>now. timestamp r = isoformat now @ ''Z'')"
  unfolding r_def
  by (auto simp: CosmosAuditRecord_init_def generate_audit_id_def utcnow_def Let_def
          split: option.splits)



lemma storage_shaped_args:
  "storage_shaped data \<Longrightarrow>
   \<exists>claim cust cname pname pstatus pdetails agent aid.
     data ''claim_id'' = Some claim \<and> data ''customerId'' = Some cust \<and>
     data ''customer_name'' = Some cname \<and> data ''process_name'' = Some pname \<and>
     data ''process_status'' = Some pstatus \<and> data ''process_details'' = Some pdetails \<and>
     data ''agent_name'' = Some agent \<and> data ''audit_id'' = Some aid \<and>
     from_dict_args data = Inr (claim, cust, cname, pname, pstatus, pdetails, agent, aid)"
  by (auto simp: storage_shaped_def required_keys_def from_dict_args_def bind_exn_def getitem_def)

text \<open>
  Claim C10. A stored document whose \<open>audit_id\<close> is the empty string is read back with a
  generated audit id, \<open>AUD\<close> and the clock reading, so the empty audit id is not
  reproduced and \<open>to_dict\<close> of the result is not the document; the constructor does the
  same when it is given the empty string.
\<close>

theorem empty_audit_id_regenerated:
  "(storage_shaped data \<and> data ''audit_id'' = Some [] \<longrightarrow>
      (\<exists>r. fst (from_dict data clk) = Inr r \<and>
           audit_id r = ''AUD'' @ strftime_YmdHMS (shd clk) \<and>
           Some (audit_id r) \<noteq> data ''audit_id'' \<and>
           to_dict r \<noteq> data)) \<and>
   audit_id (fst (CosmosAuditRecord_init claim cust cname pname pstatus pdetails agent (Some []) clk))
     = ''AUD'' @ strftime_YmdHMS (shd clk)"
proof -
  have init: "audit_id (fst (CosmosAuditRecord_init c1 c2 c3 c4 c5 c6 c7 (Some []) clk))
     = ''AUD'' @ strftime_YmdHMS (shd clk)" for c1 c2 c3 c4 c5 c6 c7
    by (simp add: CosmosAuditRecord_init_def generate_audit_id_def utcnow_def Let_def)
  have "\<exists>r. fst (from_dict data clk) = Inr r \<and>
           audit_id r = ''AUD'' @ strftime_YmdHMS (shd clk) \<and>
           Some (audit_id r) \<noteq> data ''audit_id'' \<and>
           to_dict r \<noteq> data"
    if shaped: "storage_shaped data" and empty: "data ''audit_id'' = Some []"
  proof -
    from storage_shaped_args [OF shaped] empty obtain claim cust cname pname pstatus pdetails agent
      where args: "from_dict_args data = Inr (claim, cust, cname, pname, pstatus, pdetails, agent, [])"
      by auto
    obtain r where r: "fst (from_dict data clk) = Inr r"
      and a: "audit_id r = ''AUD'' @ strftime_YmdHMS (shd clk)"
      using args
      by (simp add: from_dict_def CosmosAuditRecord_init_def generate_audit_id_def utcnow_def
            Let_def)
    have "to_dict r ''audit_id'' = Some (audit_id r)"
      by (simp add: to_dict_def)
    with a empty have "to_dict r \<noteq> data"
      by auto
    with r a empty show ?thesis
      by auto
  qed
  with init show ?thesis
    by blast
qed

text \<open>
  Claim C5. When \<open>create_item\<close> fails on the document of the request: a
  \<open>CosmosHttpResponseError\<close> with status 409 becomes the HTTP error 409 "Audit record
  already exists"; one with any other status becomes the HTTP error 500 whose detail
  carries its message; any other exception becomes the HTTP error 500 whose detail carries
  its text. The outcome is a 409 exactly for the conflict and a 500 exactly for the rest.
\<close>

theorem create_audit_record_storage_failure:
  fixes record' :: AuditRecordRequest and cont :: container and clk :: clock
    and e :: exn and status_code :: "int option" and msg rendered :: string
  defines "cosmos_record \<equiv>
      fst (CosmosAuditRecord_init (req_claim_id record') (customer_id_rule (req_claim_id record'))
             (req_customer_name record') (req_process_name record')
             (req_process_status record') (req_process_details record')
             (req_agent_name record') None clk)"
  assumes fails: "create_item cont (to_dict cosmos_record) False = Inl e"
  shows "(e = CosmosHttpResponseError (Some 409) msg rendered \<longrightarrow>
            fst (create_audit_record record' cont clk) =
              Inl (HTTPException 409 ''Audit record already exists'')) \<and>
         (e = CosmosHttpResponseError status_code msg rendered \<and> status_code \<noteq> Some 409 \<longrightarrow>
            fst (create_audit_record record' cont clk) =
              Inl (HTTPException 500 (''Database error: '' @ msg))) \<and>
         ((\<forall>sc m t. e \<noteq> CosmosHttpResponseError sc m t) \<longrightarrow>
            fst (create_audit_record record' cont clk) =
              Inl (HTTPException 500 (''Failed to create audit record: '' @ str_exn e))) \<and>
         ((\<exists>detail. fst (create_audit_record record' cont clk) = Inl (HTTPException 409 detail))
            = (\<exists>m t. e = CosmosHttpResponseError (Some 409) m t)) \<and>
         ((\<exists>detail. fst (create_audit_record record' cont clk) = Inl (HTTPException 500 detail))
            = (\<forall>m t. e \<noteq> CosmosHttpResponseError (Some 409) m t))"
proof -
  have "fst (create_audit_record record' cont clk) = Inl (create_audit_record_except e)"
    using fails unfolding cosmos_record_def
    by (auto simp: create_audit_record_def create_audit_record_try_def extract_eq
          split: prod.splits)
  then show ?thesis
    by (cases e) (auto simp: create_audit_record_except_def)
qed



lemma health_check_total:
  "\<exists>response. fst (health_check get_cosmos_client environ clk) = Inr response \<and>
      response ''timestamp'' = Some (PyStr (isoformat (shd clk) @ ''Z'')) \<and>
      (response ''status'' = Some (PyStr ''healthy'') \<or>
       response ''status'' = Some (PyStr ''unhealthy'')) \<and>
      (response ''status'' = Some (PyStr ''healthy'')) =
        (check_cosmos_connection get_cosmos_client ''status'' = Some (PyStr ''connected''))"
  by (auto simp: health_check_def health_check_try_def check_cosmos_connection_def
        bind_exn_def getitem_def utcnow_def Let_def split: sum.splits)

text \<open>
  Claim C8, at the input where the code departs from it. The client cannot be built since
  the environment variables are missing; the probe catches the fault and reports
  \<open>disconnected\<close> with the fault message under \<open>error\<close>; the health check answers
  \<open>unhealthy\<close> with a timestamp and never raises, but its response has no \<open>error\<close> entry:
  the fault message is dropped.
\<close>

theorem health_check_drops_probe_fault_message:
  "\<exists>response.
     fst (health_check (Inl (ValueError ''Missing required Cosmos DB environment variables''))
            Map.empty clk) = Inr response \<and>
     response = [''status'' \<mapsto> PyStr ''unhealthy'',
                 ''timestamp'' \<mapsto> PyStr (isoformat (shd clk) @ ''Z''),
                 ''database'' \<mapsto> PyStr ''disconnected'',
                 ''database_name'' \<mapsto> PyNone,
                 ''environment'' \<mapsto> PyStr ''production''] \<and>
     response ''error'' = None \<and>
     check_cosmos_connection (Inl (ValueError ''Missing required Cosmos DB environment variables''))
       ''error'' = Some (PyStr ''Missing required Cosmos DB environment variables'')"
  by (simp add: health_check_def health_check_try_def check_cosmos_connection_def
        bind_exn_def getitem_def get_default_def utcnow_def Let_def)




lemma to_dict_storage_shaped: "storage_shaped (to_dict r)"
  by (simp add: storage_shaped_def required_keys_def to_dict_def)










section \<open>Concrete instances\<close>

lemma example_isoformat: "isoformat \<lparr> dt_year = 2024, dt_month = 5, dt_day = 17, dt_hour = 9, dt_minute = 30,
              dt_second = 0, dt_microsecond = 0 \<rparr> = ''2024-05-17T09:30:00''"
  by code_simp

lemma example_strftime: "strftime_YmdHMS \<lparr> dt_year = 2024, dt_month = 5, dt_day = 17, dt_hour = 9, dt_minute = 30,
              dt_second = 0, dt_microsecond = 0 \<rparr> = ''20240517093000''"
  by code_simp

lemma example_now:
  "isoformat (shd example_clock) @ ''Z'' = ''2024-05-17T09:30:00Z''"
  "strftime_YmdHMS (shd example_clock) = ''20240517093000''"
  "stl example_clock = example_clock"
  by (simp_all add: example_clock_def example_isoformat example_strftime)


lemma example_init:
  "CosmosAuditRecord_init ''CUST1_001'' ''CUST1'' ''Ann'' ''intake'' ''pending'' ''opened'' ''agent7'' None example_clock
   = (example_record ''CUST1'' ''AUD20240517093000'' ''2024-05-17T09:30:00Z'', example_clock)"
  by (simp add: CosmosAuditRecord_init_def generate_audit_id_def utcnow_def Let_def example_now example_record_def)

theorem to_dict_storage_names_witness:
  "to_dict (example_record ''CUST1'' ''AUD1'' ''2024-05-17T08:00:00Z'') ''customerId'' = Some ''CUST1'' \<and>
   to_dict (example_record ''CUST1'' ''AUD1'' ''2024-05-17T08:00:00Z'') ''id'' = Some ''CUST1_AUD1'' \<and>
   to_dict (example_record ''CUST1'' ''AUD1'' ''2024-05-17T08:00:00Z'') ''type'' = Some ''audit_record'' \<and>
   to_dict (example_record ''CUST1'' ''AUD1'' ''2024-05-17T08:00:00Z'') ''audit_id'' = Some ''AUD1''"
  using to_dict_storage_names [of "example_record ''CUST1'' ''AUD1'' ''2024-05-17T08:00:00Z''"]
  by (simp add: spec_fields_def storage_name_def example_record_def)

theorem document_id_composition_witness:
  "id' (fst (CosmosAuditRecord_init ''CUST1_001'' ''CUST1'' ''Ann'' ''intake'' ''pending''
               ''opened'' ''agent7'' (Some ''AUD1'') example_clock)) = ''CUST1_AUD1'' \<and>
   id' (fst (CosmosAuditRecord_init ''CUST1_002'' ''CUST1'' ''Bob'' ''review'' ''completed''
               ''closed'' ''agent9'' (Some ''AUD1'') (stl example_clock))) = ''CUST1_AUD1''"
proof -
  have "customer_id (fst (CosmosAuditRecord_init c1 c2 c3 c4 c5 c6 c7 (Some ''AUD1'') clk)) = c2 \<and>
        audit_id (fst (CosmosAuditRecord_init c1 c2 c3 c4 c5 c6 c7 (Some ''AUD1'') clk)) = ''AUD1''"
    for c1 c2 c3 c4 c5 c6 c7 clk
    by (simp add: CosmosAuditRecord_init_def utcnow_def Let_def)
  then show ?thesis
    using document_id_composition [of "''CUST1_001''" "''CUST1''" "''Ann''" "''intake''" "''pending''"
               "''opened''" "''agent7''" "Some ''AUD1''" example_clock
               "''CUST1_002''" "''CUST1''" "''Bob''" "''review''" "''completed''"
               "''closed''" "''agent9''" "Some ''AUD1''" "stl example_clock"]
    by (simp, metis)
qed

theorem init_timestamps_equal_witness:
  "timestamp (fst (CosmosAuditRecord_init ''CUST1_001'' ''CUST1'' ''Ann'' ''intake'' ''pending''
               ''opened'' ''agent7'' None example_clock)) = ''2024-05-17T09:30:00Z'' \<and>
   created_at (fst (CosmosAuditRecord_init ''CUST1_001'' ''CUST1'' ''Ann'' ''intake'' ''pending''
               ''opened'' ''agent7'' None example_clock)) = ''2024-05-17T09:30:00Z'' \<and>
   updated_at (fst (CosmosAuditRecord_init ''CUST1_001'' ''CUST1'' ''Ann'' ''intake'' ''pending''
               ''opened'' ''agent7'' None example_clock)) = ''2024-05-17T09:30:00Z''"
  using init_timestamps_equal [of "''CUST1_001''" "''CUST1''" "''Ann''" "''intake''" "''pending''"
               "''opened''" "''agent7''" None example_clock]
  by (simp add: example_init example_record_def)

theorem empty_audit_id_regenerated_witness:
  "(\<exists>r. fst (from_dict (to_dict (example_record ''CUST1'' [] ''2024-05-16T08:00:00Z'')) example_clock) = Inr r \<and>
        audit_id r = ''AUD20240517093000'') \<and>
   audit_id (fst (CosmosAuditRecord_init ''CUST1_001'' ''CUST1'' ''Ann'' ''intake'' ''pending''
               ''opened'' ''agent7'' (Some []) example_clock)) = ''AUD20240517093000''"
proof -
  have "storage_shaped (to_dict (example_record ''CUST1'' [] ''2024-05-16T08:00:00Z''))"
    by (rule to_dict_storage_shaped)
  moreover have "to_dict (example_record ''CUST1'' [] ''2024-05-16T08:00:00Z'') ''audit_id'' = Some []"
    by (simp add: to_dict_def example_record_def)
  ultimately show ?thesis
    using empty_audit_id_regenerated [of "to_dict (example_record ''CUST1'' [] ''2024-05-16T08:00:00Z'')"
        example_clock "''CUST1_001''" "''CUST1''" "''Ann''" "''intake''" "''pending''"
               "''opened''" "''agent7''"]
    by (auto simp: example_now)
qed

lemma example_request_record:
  "fst (CosmosAuditRecord_init (req_claim_id example_request)
          (customer_id_rule (req_claim_id example_request))
          (req_customer_name example_request) (req_process_name example_request)
          (req_process_status example_request) (req_process_details example_request)
          (req_agent_name example_request) None example_clock)
   = example_record ''CUST1'' ''AUD20240517093000'' ''2024-05-17T09:30:00Z''"
  by (simp add: example_request_def customer_id_rule_def example_init)

theorem create_audit_record_storage_failure_witness:
  "fst (create_audit_record example_request
          (example_container
             [to_dict (example_record ''CUST1'' ''AUD20240517093000'' ''2024-05-17T09:30:00Z'')])
          example_clock) = Inl (HTTPException 409 ''Audit record already exists'') \<and>
   fst (create_audit_record example_request
          \<lparr> create_item = (\<lambda>body automatic. Inl (OtherException ''connection reset'')),
            query_items = (\<lambda>request. Inr []) \<rparr>
          example_clock) =
     Inl (HTTPException 500 ''Failed to create audit record: connection reset'') \<and>
   fst (create_audit_record example_request
          \<lparr> create_item = (\<lambda>body automatic.
              Inl (CosmosHttpResponseError (Some 429) ''Too many requests'' ''(429) Too many requests'')),
            query_items = (\<lambda>request. Inr []) \<rparr>
          example_clock) = Inl (HTTPException 500 ''Database error: Too many requests'')"
proof -
  have conflict:
    "create_item
       (example_container
          [to_dict (example_record ''CUST1'' ''AUD20240517093000'' ''2024-05-17T09:30:00Z'')])
       (to_dict (example_record ''CUST1'' ''AUD20240517093000'' ''2024-05-17T09:30:00Z'')) False
     = Inl (CosmosHttpResponseError (Some 409) ''Conflict'' ''(Conflict) Conflict'')"
    by (simp add: example_container_def)
  show ?thesis
    using
      create_audit_record_storage_failure
        [where cont = "example_container
             [to_dict (example_record ''CUST1'' ''AUD20240517093000'' ''2024-05-17T09:30:00Z'')]"
          and record' = example_request and clk = example_clock
          and e = "CosmosHttpResponseError (Some 409) ''Conflict'' ''(Conflict) Conflict''"
          and msg = "''Conflict''" and rendered = "''(Conflict) Conflict''"
          and status_code = "Some 409"]
      create_audit_record_storage_failure
        [where cont = "\<lparr> create_item = (\<lambda>body automatic. Inl (OtherException ''connection reset'')),
            query_items = (\<lambda>request. Inr []) \<rparr>"
          and record' = example_request and clk = example_clock
          and e = "OtherException ''connection reset''"]
      create_audit_record_storage_failure
        [where cont = "\<lparr> create_item = (\<lambda>body automatic.
              Inl (CosmosHttpResponseError (Some 429) ''Too many requests'' ''(429) Too many requests'')),
            query_items = (\<lambda>request. Inr []) \<rparr>"
          and record' = example_request and clk = example_clock
          and e = "CosmosHttpResponseError (Some 429) ''Too many requests'' ''(429) Too many requests''"
          and msg = "''Too many requests''" and rendered = "''(429) Too many requests''"
          and status_code = "Some 429"]
    by (simp add: example_request_record conflict)
qed










end
